theory Spec2Isabelle
  imports Main
begin

section \<open>Data model\<close>

text \<open>
  The booking engine of the childcare hotel (backend-firestore): the booking repository,
  the booking service and the child service. Instants are milliseconds since the epoch
  (\<open>int\<close>); document ids are strings, and the empty string is the falsy id of JavaScript.
  A thrown exception is the \<open>Inl\<close> of a result \<open>error + 'a\<close>.
\<close>

datatype bookingStatus = BOOKED | PROGRESS | COMPLETED | CANCELLED

datatype error =
    ValidationError string
  | ForbiddenError
  | NotFoundError
  | TypeError

record photo =
  photo_id :: string
  photo_name :: string

text \<open>
  The fields a booking payload and a stored booking share. An absent \<open>employeeNotes\<close> is
  the empty string and an absent \<open>photos\<close> the empty list: the service tests both for
  truthiness only.
\<close>

record bookingFields =
  arrival :: int
  departure :: int
  status :: bookingStatus
  fee :: int
  employeeNotes :: string
  photos :: "photo list"

text \<open>\<open>data\<close>, the payload of create and update: relations are given by id.\<close>

record bookingData = bookingFields +
  child :: string
  owner :: string

text \<open>
  A booking document as \<open>findById\<close> returns it. A populated relation is the id of the
  object it resolves to, \<open>None\<close> when the relation is null.
\<close>

record booking = bookingFields +
  booking_id :: string
  booking_child :: "string option"
  booking_owner :: "string option"

record childRecord =
  child_id :: string
  child_owner :: "string option"
  child_name :: string

record settings =
  capacity :: int
  dailyFee :: int

record store =
  bookings :: "booking list"
  children :: "childRecord list"
  settingsDoc :: settings

text \<open>
  The acting principal. \<open>UserRoleChecker\<close> is not among the sources: the answers of
  \<open>UserRoleChecker.isChildOwner\<close> and \<open>UserRoleChecker.isEmployee\<close> for the user are
  fields of the user.
\<close>

record user =
  user_id :: string
  isChildOwner :: bool
  isEmployee :: bool

text \<open>
  What a service is constructed with and reads from its surroundings: the current user,
  the clock (\<open>moment()\<close>) and \<open>BookingFeeCalculator.calculate\<close>, which is not among
  the sources and is taken as a parameter.
\<close>

record env =
  currentUser :: user
  now :: int
  BookingFeeCalculator_calculate :: "int \<Rightarrow> int \<Rightarrow> int \<Rightarrow> int"

text \<open>\<open>await f(); rest\<close>: an exception of \<open>f\<close> skips the rest.\<close>

definition andThen :: "error + 'a \<Rightarrow> ('a \<Rightarrow> error + 'b) \<Rightarrow> error + 'b" where
  "andThen r f = (case r of Inl e \<Rightarrow> Inl e | Inr v \<Rightarrow> f v)"

section \<open>BookingRepository\<close>

text \<open>
  Modelled from the spec: \<open>findDocument\<close> of the base class AbstractEntityRepository is
  not among the sources; a referenced entity that is absent surfaces as NotFoundError.
\<close>

definition findDocument :: "booking list \<Rightarrow> string \<Rightarrow> error + booking" where
  "findDocument bs i =
     (case find (\<lambda>b. booking_id b = i) bs of
        None \<Rightarrow> Inl NotFoundError
      | Some b \<Rightarrow> Inr b)"

definition repository_findById :: "booking list \<Rightarrow> string \<Rightarrow> error + booking" where
  "repository_findById bs i = findDocument bs i"

definition existsForChild :: "booking list \<Rightarrow> string \<Rightarrow> bool" where
  "existsForChild bs childId =
     (0 < length (take 1 (filter (\<lambda>b. booking_child b = Some childId) bs)))"

definition arrivalFilter :: "int \<Rightarrow> booking \<Rightarrow> bool" where
  "arrivalFilter end' item = (arrival item \<le> end')"

definition statusFilter :: "booking \<Rightarrow> bool" where
  "statusFilter item = (status item \<in> set [BOOKED, PROGRESS])"

definition idToExcludeFilter :: "string option \<Rightarrow> booking \<Rightarrow> bool" where
  "idToExcludeFilter idToExclude item =
     (case idToExclude of
        None \<Rightarrow> True
      | Some i \<Rightarrow> (if i = [] then True else booking_id item \<noteq> i))"

definition countActiveBookingsInPeriod ::
  "booking list \<Rightarrow> int \<Rightarrow> int \<Rightarrow> string option \<Rightarrow> nat" where
  "countActiveBookingsInPeriod bs start end' idToExclude =
     (let results = filter (\<lambda>b. start \<le> departure b) bs in
      if results = [] then 0
      else length (filter statusFilter
             (filter (idToExcludeFilter idToExclude)
               (filter (arrivalFilter end') results))))"

text \<open>
  A method call on the repository object is answered by name. Of the methods that count
  bookings in a period, the class BookingRepository declares exactly one,
  \<open>countActiveBookingsInPeriod\<close>.

  Modelled from the spec: the base class AbstractEntityRepository is not among the
  sources; it is the generic persistence layer (createAtomic, updateAtomic, deleteAtomic,
  queryByRange, queryEqual, countWhere) and declares no period counter, so any other name
  is undefined on the object and calling it throws a TypeError.
\<close>

definition BookingRepository_periodCounters ::
  "(string \<times> (booking list \<Rightarrow> int \<Rightarrow> int \<Rightarrow> string option \<Rightarrow> nat)) list" where
  "BookingRepository_periodCounters =
     [(''countActiveBookingsInPeriod'', countActiveBookingsInPeriod)]"

definition repository_call ::
  "string \<Rightarrow> booking list \<Rightarrow> int \<Rightarrow> int \<Rightarrow> string option \<Rightarrow> error + nat" where
  "repository_call name bs start end' idToExclude =
     (case map_of BookingRepository_periodCounters name of
        None \<Rightarrow> Inl TypeError
      | Some method \<Rightarrow> Inr (method bs start end' idToExclude))"

section \<open>BookingService: period checks\<close>

definition isPeriodAvailable :: "store \<Rightarrow> int \<Rightarrow> int \<Rightarrow> string option \<Rightarrow> error + bool" where
  "isPeriodAvailable db start end' idToExclude =
     andThen (repository_call ''countActiveBookingInPeriod'' (bookings db) start end' idToExclude)
       (\<lambda>bookingsAtPeriod.
          Inr (int bookingsAtPeriod < capacity (settingsDoc db)))"

definition validatePeriodFuture :: "env \<Rightarrow> bookingData \<Rightarrow> error + unit" where
  "validatePeriodFuture e d =
     (if status d \<noteq> BOOKED then Inr ()
      else if departure d < arrival d then
        Inl (ValidationError ''entities.booking.validation.arrivalAfterDeparture'')
      else if arrival d < now e then
        Inl (ValidationError ''entities.booking.validation.periodPast'')
      else Inr ())"

definition validatePeriodAvailable :: "store \<Rightarrow> string option \<Rightarrow> bookingData \<Rightarrow> error + unit" where
  "validatePeriodAvailable db i d =
     (if status d \<notin> set [PROGRESS, BOOKED] then Inr ()
      else andThen (isPeriodAvailable db (arrival d) (departure d) i)
        (\<lambda>available.
           if \<not> available then
             Inl (ValidationError ''entities.booking.validation.periodFull'')
           else Inr ()))"

definition calculateFee :: "env \<Rightarrow> store \<Rightarrow> bookingData \<Rightarrow> int" where
  "calculateFee e db d =
     BookingFeeCalculator_calculate e (arrival d) (departure d) (dailyFee (settingsDoc db))"

section \<open>ChildRepository and the child/owner match\<close>

text \<open>
  Modelled from the spec: \<open>ChildRepository.findById\<close> is not among the sources
  (ChildLookup.findById(id) yields the child or fails NotFound).
\<close>

definition childRepository_findById :: "childRecord list \<Rightarrow> string \<Rightarrow> error + childRecord" where
  "childRepository_findById cs i =
     (case find (\<lambda>c. child_id c = i) cs of
        None \<Rightarrow> Inl NotFoundError
      | Some c \<Rightarrow> Inr c)"

text \<open>\<open>child.owner.id\<close> on a child whose owner is null throws a TypeError.\<close>

definition validateChildAndOwnerMatch :: "store \<Rightarrow> bookingData \<Rightarrow> error + unit" where
  "validateChildAndOwnerMatch db d =
     andThen (childRepository_findById (children db) (child d))
       (\<lambda>c. case child_owner c of
              None \<Rightarrow> Inl TypeError
            | Some ownerId \<Rightarrow> if ownerId \<noteq> owner d then Inl ForbiddenError else Inr ())"

section \<open>BookingService: reading and role validation\<close>

definition BookingService_validateFindById :: "env \<Rightarrow> booking \<Rightarrow> error + unit" where
  "BookingService_validateFindById e record =
     (if isChildOwner (currentUser e) then
        (case booking_owner record of
           None \<Rightarrow> Inr ()
         | Some ownerId \<Rightarrow>
             if ownerId \<noteq> user_id (currentUser e) then Inl ForbiddenError else Inr ())
      else Inr ())"

definition BookingService_findById :: "env \<Rightarrow> store \<Rightarrow> string \<Rightarrow> error + booking" where
  "BookingService_findById e db i =
     andThen (repository_findById (bookings db) i)
       (\<lambda>record. andThen (BookingService_validateFindById e record) (\<lambda>_. Inr record))"

definition BookingService_validateIsSameOwner :: "env \<Rightarrow> store \<Rightarrow> string \<Rightarrow> error + unit" where
  "BookingService_validateIsSameOwner e db i =
     andThen (BookingService_findById e db i) (\<lambda>_. Inr ())"

definition validateCreate :: "env \<Rightarrow> store \<Rightarrow> bookingData \<Rightarrow> error + unit" where
  "validateCreate e db d =
     andThen (validatePeriodFuture e d) (\<lambda>_.
     andThen (validatePeriodAvailable db None d) (\<lambda>_.
     andThen
       (if isChildOwner (currentUser e) then
          (if owner d \<noteq> user_id (currentUser e) then Inl ForbiddenError
           else if status d \<noteq> BOOKED then Inl ForbiddenError
           else Inr ())
        else Inr ()) (\<lambda>_.
     validateChildAndOwnerMatch db d)))"

text \<open>
  The child-owner validator assigns \<open>data.owner\<close>; the payload as it stands afterwards is
  the result.
\<close>

definition validateUpdateForChildOwner ::
  "env \<Rightarrow> store \<Rightarrow> string \<Rightarrow> bookingData \<Rightarrow> booking \<Rightarrow> error + bookingData" where
  "validateUpdateForChildOwner e db i d existingData =
     (let d1 = d\<lparr>owner := user_id (currentUser e)\<rparr> in
      andThen (BookingService_validateIsSameOwner e db i) (\<lambda>_.
        if status existingData \<noteq> BOOKED then Inl ForbiddenError
        else if status d1 \<notin> set [CANCELLED, BOOKED] then Inl ForbiddenError
        else Inr d1))"

text \<open>
  \<open>existingData.owner.id\<close> and \<open>existingData.child.id\<close> throw a TypeError on a null relation.
\<close>

definition validateUpdateForEmployee :: "string \<Rightarrow> bookingData \<Rightarrow> booking \<Rightarrow> error + unit" where
  "validateUpdateForEmployee i d existingData =
     (if status existingData \<in> set [CANCELLED, COMPLETED] then Inl ForbiddenError
      else if status existingData \<noteq> BOOKED then
        (if status d = BOOKED then Inl ForbiddenError
         else (case booking_owner existingData of
                 None \<Rightarrow> Inl TypeError
               | Some ownerId \<Rightarrow>
                   if owner d \<noteq> ownerId then Inl ForbiddenError
                   else (case booking_child existingData of
                           None \<Rightarrow> Inl TypeError
                         | Some childId \<Rightarrow>
                             if child d \<noteq> childId then Inl ForbiddenError else Inr ())))
      else Inr ())"

definition validateUpdate :: "env \<Rightarrow> store \<Rightarrow> string \<Rightarrow> bookingData \<Rightarrow> error + bookingData" where
  "validateUpdate e db i d =
     andThen (validatePeriodFuture e d) (\<lambda>_.
     andThen (validatePeriodAvailable db (Some i) d) (\<lambda>_.
     andThen (BookingService_findById e db i) (\<lambda>existingData.
     andThen
       (if isChildOwner (currentUser e) then validateUpdateForChildOwner e db i d existingData
        else Inr d) (\<lambda>d1.
     andThen
       (if isEmployee (currentUser e) then validateUpdateForEmployee i d1 existingData
        else Inr ()) (\<lambda>_.
     andThen (validateChildAndOwnerMatch db d1) (\<lambda>_. Inr d1))))))"

section \<open>BookingService: the update notification\<close>

definition hasChangedEmployeeNotesOrPhotos ::
  "env \<Rightarrow> store \<Rightarrow> string \<Rightarrow> bookingData \<Rightarrow> error + bool" where
  "hasChangedEmployeeNotesOrPhotos e db i newRecord =
     andThen (BookingService_findById e db i) (\<lambda>oldRecord.
       if employeeNotes newRecord \<noteq> [] \<and> employeeNotes oldRecord \<noteq> employeeNotes newRecord
       then Inr True
       else if photos newRecord = [] then Inr False
       else Inr (list_ex
                  (\<lambda>p. \<not> list_ex (\<lambda>oldPhoto. photo_id oldPhoto = photo_id p) (photos oldRecord))
                  (photos newRecord)))"

definition mustSendBookingUpdateEmail ::
  "env \<Rightarrow> store \<Rightarrow> string \<Rightarrow> bookingData \<Rightarrow> error + bool" where
  "mustSendBookingUpdateEmail e db i newRecord =
     (if status newRecord \<noteq> PROGRESS then Inr False
      else hasChangedEmployeeNotesOrPhotos e db i newRecord)"

section \<open>BookingService: create, update, destroyAll\<close>

text \<open>
  What an operation does to the outside, in order: the writes it puts on the batch, the
  commit of the batch, the notification. An operation that throws has committed nothing:
  its result is the \<open>Inl\<close> of the exception.
\<close>

datatype effect =
    CreateBooking bookingData
  | UpdateBooking string bookingData
  | DestroyBooking string
  | DestroyChild string
  | CommitBatch
  | SendBookingUpdateEmail string

definition BookingService_create :: "env \<Rightarrow> store \<Rightarrow> bookingData \<Rightarrow> error + effect list" where
  "BookingService_create e db d =
     andThen (validateCreate e db d) (\<lambda>_.
       let d1 = d\<lparr>fee := calculateFee e db d\<rparr> in
       Inr [CreateBooking d1, CommitBatch])"

definition BookingService_update ::
  "env \<Rightarrow> store \<Rightarrow> string \<Rightarrow> bookingData \<Rightarrow> error + effect list" where
  "BookingService_update e db i d =
     andThen (validateUpdate e db i d) (\<lambda>d1.
       let d2 = d1\<lparr>fee := calculateFee e db d1\<rparr> in
       andThen (mustSendBookingUpdateEmail e db i d2) (\<lambda>mustSend.
         Inr ([UpdateBooking i d2, CommitBatch] @
              (if mustSend then [SendBookingUpdateEmail i] else []))))"

text \<open>
  The statements of \<open>update\<close> that follow its validation: the fee, the decision on the
  notification, the write and its commit, the notification.
\<close>

definition updateValidated :: "env \<Rightarrow> store \<Rightarrow> string \<Rightarrow> bookingData \<Rightarrow> error + effect list" where
  "updateValidated e db i d1 =
     (let d2 = d1\<lparr>fee := calculateFee e db d1\<rparr> in
      andThen (mustSendBookingUpdateEmail e db i d2) (\<lambda>mustSend.
        Inr ([UpdateBooking i d2, CommitBatch] @
             (if mustSend then [SendBookingUpdateEmail i] else []))))"

definition BookingService_destroyAll :: "env \<Rightarrow> store \<Rightarrow> string list \<Rightarrow> error + effect list" where
  "BookingService_destroyAll e db ids = Inr (map DestroyBooking ids @ [CommitBatch])"

section \<open>BookingService.findAndCountAll\<close>

record bookingFilter =
  filter_id :: "string option"
  filter_owner :: "string option"
  filter_child :: "string option"
  filter_arrivalRange :: "int option list option"
  filter_departureRange :: "int option list option"
  filter_period :: "int option list option"
  filter_status :: "bookingStatus option"
  filter_feeRange :: "int option list option"
  filter_createdAtRange :: "int option list option"

record args =
  args_filter :: "bookingFilter option"
  args_limit :: nat
  args_offset :: nat
  args_orderBy :: "string option"

text \<open>\<open>{...args.filter}\<close> of an absent filter is the object with no field set.\<close>

definition spreadFilter :: "bookingFilter option \<Rightarrow> bookingFilter" where
  "spreadFilter f =
     (case f of
        Some g \<Rightarrow> g
      | None \<Rightarrow>
          \<lparr>filter_id = None, filter_owner = None, filter_child = None,
           filter_arrivalRange = None, filter_departureRange = None, filter_period = None,
           filter_status = None, filter_feeRange = None, filter_createdAtRange = None\<rparr>)"

text \<open>
  The constraints \<open>BookingRepository.findAndCountAll\<close> appends to its query, in order.
  FirebaseQuery, which evaluates them, is not among the sources.
\<close>

datatype queryConstraint =
    AppendId string string
  | AppendRange string "int option list"
  | AppendOverlap string string "int option list"
  | AppendEqual string bookingStatus

definition appendIdIf :: "string \<Rightarrow> string option \<Rightarrow> queryConstraint list" where
  "appendIdIf field v =
     (case v of None \<Rightarrow> [] | Some s \<Rightarrow> if s = [] then [] else [AppendId field s])"

definition appendRangeIf :: "string \<Rightarrow> int option list option \<Rightarrow> queryConstraint list" where
  "appendRangeIf field v = (case v of None \<Rightarrow> [] | Some r \<Rightarrow> [AppendRange field r])"

definition repository_findAndCountAll :: "args \<Rightarrow> queryConstraint list" where
  "repository_findAndCountAll a =
     (case args_filter a of
        None \<Rightarrow> []
      | Some f \<Rightarrow>
          appendIdIf ''id'' (filter_id f) @
          appendIdIf ''owner'' (filter_owner f) @
          appendIdIf ''child'' (filter_child f) @
          appendRangeIf ''arrival'' (filter_arrivalRange f) @
          appendRangeIf ''departure'' (filter_departureRange f) @
          (case filter_period f of
             None \<Rightarrow> []
           | Some r \<Rightarrow> [AppendOverlap ''arrival'' ''departure'' r]) @
          (case filter_status f of None \<Rightarrow> [] | Some s \<Rightarrow> [AppendEqual ''status'' s]) @
          appendRangeIf ''fee'' (filter_feeRange f) @
          appendRangeIf ''createdAt'' (filter_createdAtRange f))"

definition BookingService_findAndCountAll_args :: "env \<Rightarrow> args \<Rightarrow> args" where
  "BookingService_findAndCountAll_args e a =
     (if isChildOwner (currentUser e) then
        a\<lparr>args_filter :=
            Some ((spreadFilter (args_filter a))\<lparr>filter_owner := Some (user_id (currentUser e))\<rparr>)\<rparr>
      else a)"

definition BookingService_findAndCountAll :: "env \<Rightarrow> args \<Rightarrow> queryConstraint list" where
  "BookingService_findAndCountAll e a =
     repository_findAndCountAll (BookingService_findAndCountAll_args e a)"

text \<open>The constraints of a query that bear on the owner of a booking.\<close>

fun constrainsOwner :: "queryConstraint \<Rightarrow> bool" where
  "constrainsOwner (AppendId field v) = (field = ''owner'')"
| "constrainsOwner (AppendRange field r) = False"
| "constrainsOwner (AppendOverlap lo hi r) = False"
| "constrainsOwner (AppendEqual field s) = False"

section \<open>ChildService: destroy\<close>

definition ChildService_validateFindById :: "env \<Rightarrow> childRecord \<Rightarrow> error + unit" where
  "ChildService_validateFindById e record =
     (if isChildOwner (currentUser e) then
        (case child_owner record of
           None \<Rightarrow> Inr ()
         | Some ownerId \<Rightarrow>
             if ownerId \<noteq> user_id (currentUser e) then Inl ForbiddenError else Inr ())
      else Inr ())"

definition ChildService_findById :: "env \<Rightarrow> store \<Rightarrow> string \<Rightarrow> error + childRecord" where
  "ChildService_findById e db i =
     andThen (childRepository_findById (children db) i)
       (\<lambda>record. andThen (ChildService_validateFindById e record) (\<lambda>_. Inr record))"

definition ChildService_validateIsSameOwner :: "env \<Rightarrow> store \<Rightarrow> string \<Rightarrow> error + unit" where
  "ChildService_validateIsSameOwner e db i =
     andThen (ChildService_findById e db i) (\<lambda>_. Inr ())"

definition validateDestroy :: "env \<Rightarrow> store \<Rightarrow> string \<Rightarrow> error + unit" where
  "validateDestroy e db i =
     andThen
       (if isChildOwner (currentUser e) then ChildService_validateIsSameOwner e db i
        else Inr ()) (\<lambda>_.
     if existsForChild (bookings db) i then
       Inl (ValidationError ''entities.child.validation.bookingExists'')
     else Inr ())"

text \<open>The loop of \<open>destroyAll\<close>: validate the id, put its deletion on the batch, go on.\<close>

fun ChildService_destroyAll_batch :: "env \<Rightarrow> store \<Rightarrow> string list \<Rightarrow> error + effect list" where
  "ChildService_destroyAll_batch e db [] = Inr []"
| "ChildService_destroyAll_batch e db (i # ids) =
     (case validateDestroy e db i of
        Inl err \<Rightarrow> Inl err
      | Inr _ \<Rightarrow>
          (case ChildService_destroyAll_batch e db ids of
             Inl err \<Rightarrow> Inl err
           | Inr batch \<Rightarrow> Inr (DestroyChild i # batch)))"

definition ChildService_destroyAll :: "env \<Rightarrow> store \<Rightarrow> string list \<Rightarrow> error + effect list" where
  "ChildService_destroyAll e db ids =
     andThen (ChildService_destroyAll_batch e db ids) (\<lambda>batch. Inr (batch @ [CommitBatch]))"

section \<open>The store after an operation\<close>

text \<open>
  Modelled from the spec: the write methods of the base repository (createAtomic,
  updateAtomic, deleteAtomic) are not among the sources. A committed create inserts the
  payload under the id the store assigns, an update replaces the document of that id, a
  delete removes it; a batch that is not committed leaves the store as it was.
\<close>

definition toDocument :: "string \<Rightarrow> bookingData \<Rightarrow> booking" where
  "toDocument i d =
     \<lparr>arrival = arrival d, departure = departure d, status = status d, fee = fee d,
      employeeNotes = employeeNotes d, photos = photos d,
      booking_id = i, booking_child = Some (child d), booking_owner = Some (owner d)\<rparr>"

fun applyEffect :: "string \<Rightarrow> store \<Rightarrow> effect \<Rightarrow> store" where
  "applyEffect newId db (CreateBooking d) = db\<lparr>bookings := bookings db @ [toDocument newId d]\<rparr>"
| "applyEffect newId db (UpdateBooking i d) =
     db\<lparr>bookings := map (\<lambda>b. if booking_id b = i then toDocument i d else b) (bookings db)\<rparr>"
| "applyEffect newId db (DestroyBooking i) =
     db\<lparr>bookings := filter (\<lambda>b. booking_id b \<noteq> i) (bookings db)\<rparr>"
| "applyEffect newId db (DestroyChild i) =
     db\<lparr>children := filter (\<lambda>c. child_id c \<noteq> i) (children db)\<rparr>"
| "applyEffect newId db CommitBatch = db"
| "applyEffect newId db (SendBookingUpdateEmail i) = db"

definition storeAfter :: "string \<Rightarrow> store \<Rightarrow> error + effect list \<Rightarrow> store" where
  "storeAfter newId db r =
     (case r of
        Inl err \<Rightarrow> db
      | Inr effects \<Rightarrow> if CommitBatch \<in> set effects then foldl (applyEffect newId) db effects else db)"

section \<open>The role-gated transition table\<close>

text \<open>
  The table in the words of the specification (section 4.4), to be compared with the two
  validators of the service. COMPLETED and CANCELLED accept no outgoing transition. A
  child-owner may update only when the existing status is BOOKED and the requested
  status is BOOKED or CANCELLED. An employee may update a BOOKED booking; when the
  existing status is not BOOKED, the requested status may not be BOOKED and owner and
  child may not change.
\<close>

datatype role = ChildOwner | Employee

definition roleGatedTable :: "role \<Rightarrow> bookingStatus \<Rightarrow> bookingStatus \<Rightarrow> bool \<Rightarrow> bool" where
  "roleGatedTable r existing requested sameOwnerAndChild =
     (existing \<noteq> COMPLETED \<and> existing \<noteq> CANCELLED \<and>
      (case r of
         ChildOwner \<Rightarrow> existing = BOOKED \<and> (requested = BOOKED \<or> requested = CANCELLED)
       | Employee \<Rightarrow> existing = BOOKED \<or> (requested \<noteq> BOOKED \<and> sameOwnerAndChild)))"

section \<open>The notification condition\<close>

text \<open>
  When a progress update is worth a notification, in the words of the specification
  (section 4.6), with the change of notes read as the service reads it: the status is
  PROGRESS, and the payload's notes are set and differ from the record's, or the payload
  holds a photo whose id is not among the record's photos.
\<close>

definition notificationWarranted :: "booking \<Rightarrow> bookingData \<Rightarrow> bool" where
  "notificationWarranted oldRecord d =
     (status d = PROGRESS \<and>
      ((employeeNotes d \<noteq> [] \<and> employeeNotes oldRecord \<noteq> employeeNotes d) \<or>
       (\<exists>p\<in>set (photos d). photo_id p \<notin> photo_id ` set (photos oldRecord))))"

section \<open>Example data\<close>

definition exampleCalculator :: "int \<Rightarrow> int \<Rightarrow> int \<Rightarrow> int" where
  "exampleCalculator a d rate = (d - a + 1) * rate"

definition employeeEnv :: env where
  "employeeEnv =
     \<lparr>currentUser = \<lparr>user_id = ''e1'', isChildOwner = False, isEmployee = True\<rparr>,
      now = 10, BookingFeeCalculator_calculate = exampleCalculator\<rparr>"

definition ownerEnv :: env where
  "ownerEnv =
     \<lparr>currentUser = \<lparr>user_id = ''u1'', isChildOwner = True, isEmployee = False\<rparr>,
      now = 10, BookingFeeCalculator_calculate = exampleCalculator\<rparr>"

definition strangerEnv :: env where
  "strangerEnv =
     \<lparr>currentUser = \<lparr>user_id = ''u2'', isChildOwner = True, isEmployee = False\<rparr>,
      now = 10, BookingFeeCalculator_calculate = exampleCalculator\<rparr>"

definition bookedStay :: booking where
  "bookedStay =
     \<lparr>arrival = 20, departure = 30, status = BOOKED, fee = 110,
      employeeNotes = ''fed at noon'', photos = [\<lparr>photo_id = ''p1'', photo_name = ''nap''\<rparr>],
      booking_id = ''b1'', booking_child = Some ''c1'', booking_owner = Some ''u1''\<rparr>"

definition runningStay :: booking where
  "runningStay =
     \<lparr>arrival = 5, departure = 40, status = PROGRESS, fee = 360,
      employeeNotes = ''fed at noon'', photos = [\<lparr>photo_id = ''p1'', photo_name = ''nap''\<rparr>],
      booking_id = ''b2'', booking_child = Some ''c1'', booking_owner = Some ''u1''\<rparr>"

definition exampleStore :: store where
  "exampleStore =
     \<lparr>bookings = [bookedStay, runningStay],
      children = [\<lparr>child_id = ''c1'', child_owner = Some ''u1'', child_name = ''Ada''\<rparr>,
                  \<lparr>child_id = ''c2'', child_owner = Some ''u2'', child_name = ''Ben''\<rparr>],
      settingsDoc = \<lparr>capacity = 2, dailyFee = 10\<rparr>\<rparr>"

definition listArgs :: "string option \<Rightarrow> args" where
  "listArgs ownerFilter =
     \<lparr>args_filter = Some ((spreadFilter None)\<lparr>filter_owner := ownerFilter,
                                             filter_status := Some BOOKED\<rparr>),
      args_limit = 10, args_offset = 0, args_orderBy = None\<rparr>"

definition request :: "int \<Rightarrow> int \<Rightarrow> bookingStatus \<Rightarrow> bookingData" where
  "request a d s =
     \<lparr>arrival = a, departure = d, status = s, fee = 0, employeeNotes = [], photos = [],
      child = ''c1'', owner = ''u1''\<rparr>"

section \<open>Basic facts\<close>

lemma andThen_Inl [simp]: "andThen (Inl e) f = Inl e"
  by (simp add: andThen_def)

lemma andThen_Inr [simp]: "andThen (Inr v) f = f v"
  by (simp add: andThen_def)

lemma andThen_eq_Inr:
  "andThen r f = Inr y \<longleftrightarrow> (\<exists>v. r = Inr v \<and> f v =
     Inr y)"
  by (cases r) simp_all

lemma repository_call_undeclared:
  "repository_call ''countActiveBookingInPeriod'' bs start end' idToExclude = Inl TypeError"
  by (simp add: repository_call_def BookingRepository_periodCounters_def)

lemma isPeriodAvailable_undeclared: "isPeriodAvailable db start end' idToExclude = Inl TypeError"
  by (simp add: isPeriodAvailable_def repository_call_undeclared)

lemma countActiveBookingsInPeriod_filters:
  "countActiveBookingsInPeriod bs start end' idToExclude =
     length (filter statusFilter (filter (idToExcludeFilter idToExclude)
       (filter (arrivalFilter end') (filter (\<lambda>b. start \<le> departure b) bs))))"
  by (cases "filter (\<lambda>b. start \<le> departure b) bs = []")
     (simp_all add: countActiveBookingsInPeriod_def Let_def)

text \<open>
  The repository's counter is the count the capacity contract describes: the bookings in
  status BOOKED or PROGRESS that leave at or after the start and arrive at or before the
  end, the excluded id apart.
\<close>

lemma countActiveBookingsInPeriod_count:
  "countActiveBookingsInPeriod bs start end' idToExclude =
     length (filter (\<lambda>b. status b \<in> {BOOKED, PROGRESS} \<and> start \<le> departure b \<and>
                          arrival b \<le> end' \<and>
                          (case idToExclude of
                             None \<Rightarrow> True
                           | Some i \<Rightarrow> i = [] \<or> booking_id b \<noteq> i)) bs)"
  unfolding countActiveBookingsInPeriod_filters filter_filter
  by (rule arg_cong [where f = length], rule filter_cong)
     (auto simp: arrivalFilter_def idToExcludeFilter_def statusFilter_def split: option.splits)

lemmas example_defs =
  employeeEnv_def ownerEnv_def strangerEnv_def bookedStay_def runningStay_def
  exampleStore_def request_def exampleCalculator_def listArgs_def

lemmas read_defs =
  BookingService_findById_def repository_findById_def findDocument_def
  BookingService_validateFindById_def BookingService_validateIsSameOwner_def
  childRepository_findById_def validateChildAndOwnerMatch_def

section \<open>Capacity admission\<close>

text \<open>
  Claim C1. \<open>isPeriodAvailable(start, end, excludeId)\<close> is to return whether the count of
  active bookings that overlap the period, the excluded id apart, is below the capacity
  read from the settings. The service asks the repository for
  \<open>countActiveBookingInPeriod\<close>; the repository declares \<open>countActiveBookingsInPeriod\<close>.
  On an empty store with capacity 2 the count is 0, which is below the capacity, and the
  call throws a TypeError instead of returning true.
\<close>

theorem isPeriodAvailable_throws_on_empty_store:
  "isPeriodAvailable \<lparr>bookings = [], children = [], settingsDoc = \<lparr>capacity = 2, dailyFee = 10\<rparr>\<rparr>
       1 5 None = Inl TypeError
   \<and> int (countActiveBookingsInPeriod [] 1 5 None) < 2"
  by (simp add: isPeriodAvailable_undeclared countActiveBookingsInPeriod_def)

section \<open>Period validation\<close>

text \<open>
  Claim C4. For every create and update whose target status is BOOKED, validation fails
  with a ValidationError when the arrival is strictly after the departure, and fails with
  a ValidationError when the arrival is strictly before the current instant; when the
  target status is not BOOKED, neither period check is applied. The period check is the
  first step of both operations, so its error is the error of the operation.
\<close>

theorem validatePeriodFuture_on_create_and_update:
  "(status d = BOOKED \<and> departure d < arrival d \<longrightarrow>
      validatePeriodFuture e d =
        Inl (ValidationError ''entities.booking.validation.arrivalAfterDeparture'')
    \<and> BookingService_create e db d =
        Inl (ValidationError ''entities.booking.validation.arrivalAfterDeparture'')
    \<and> BookingService_update e db i d =
        Inl (ValidationError ''entities.booking.validation.arrivalAfterDeparture''))
 \<and> (status d = BOOKED \<and> arrival d < now e \<longrightarrow>
      (\<exists>key. validatePeriodFuture e d = Inl (ValidationError key)
        \<and> BookingService_create e db d = Inl (ValidationError key)
        \<and> BookingService_update e db i d = Inl (ValidationError key)))
 \<and> (status d \<noteq> BOOKED \<longrightarrow> validatePeriodFuture e d = Inr ())"
  by (simp add: validatePeriodFuture_def BookingService_create_def BookingService_update_def
      validateCreate_def validateUpdate_def)

theorem validatePeriodFuture_on_create_and_update_witness:
  "BookingService_create employeeEnv exampleStore (request 30 20 BOOKED) =
     Inl (ValidationError ''entities.booking.validation.arrivalAfterDeparture'')
   \<and> BookingService_update employeeEnv exampleStore ''b1'' (request 30 20 BOOKED) =
     Inl (ValidationError ''entities.booking.validation.arrivalAfterDeparture'')
   \<and> (\<exists>key. BookingService_create employeeEnv exampleStore (request 3 20 BOOKED) =
         Inl (ValidationError key))
   \<and> validatePeriodFuture employeeEnv (request 30 20 CANCELLED) = Inr ()"
proof -
  have after: "status (request 30 20 BOOKED) = BOOKED
      \<and> departure (request 30 20 BOOKED) < arrival (request 30 20 BOOKED)"
    by (simp add: request_def)
  have past: "status (request 3 20 BOOKED) = BOOKED
      \<and> arrival (request 3 20 BOOKED) < now employeeEnv"
    by (simp add: request_def employeeEnv_def)
  have other: "status (request 30 20 CANCELLED) \<noteq> BOOKED"
    by (simp add: request_def)
  from validatePeriodFuture_on_create_and_update
         [of "request 30 20 BOOKED" employeeEnv exampleStore "''b1''"] after
       validatePeriodFuture_on_create_and_update
         [of "request 3 20 BOOKED" employeeEnv exampleStore "''b1''"] past
       validatePeriodFuture_on_create_and_update
         [of "request 30 20 CANCELLED" employeeEnv exampleStore "''b1''"] other
  show ?thesis by blast
qed

section \<open>Admission on create and update\<close>

lemma validatePeriodAvailable_cases:
  "validatePeriodAvailable db i d =
     (if status d = BOOKED \<or> status d = PROGRESS then Inl TypeError else Inr ())"
  by (auto simp: validatePeriodAvailable_def isPeriodAvailable_undeclared)

text \<open>
  Claim C2. On create and update, a proposed status BOOKED or PROGRESS over a period that
  is not available is to fail with the ValidationError periodFull before any write; any
  other status skips the admission check. The check is skipped for COMPLETED and
  CANCELLED (lemma \<open>validatePeriodAvailable_cases\<close>), but for BOOKED and PROGRESS the call of
  the undeclared repository method throws first. In the example store two active bookings
  overlap the days 22 to 25 and the capacity is 2: the period is full, and the create of
  an employee fails with a TypeError where periodFull is due.
\<close>

theorem create_on_full_period_throws_TypeError:
  "BookingService_create employeeEnv exampleStore (request 22 25 BOOKED) = Inl TypeError
   \<and> \<not> int (countActiveBookingsInPeriod (bookings exampleStore) 22 25 None)
         < capacity (settingsDoc exampleStore)
   \<and> validatePeriodAvailable exampleStore None (request 22 25 CANCELLED) = Inr ()"
  by (simp add: BookingService_create_def validateCreate_def validatePeriodFuture_def
      validatePeriodAvailable_cases example_defs countActiveBookingsInPeriod_def
      statusFilter_def arrivalFilter_def idToExcludeFilter_def)

section \<open>The booking state machine\<close>

lemma childOwner_gate:
  assumes "BookingService_findById e db i = Inr existingData"
  shows "validateUpdateForChildOwner e db i d existingData =
          (if roleGatedTable ChildOwner (status existingData) (status d) True
           then Inr (d\<lparr>owner := user_id (currentUser e)\<rparr>) else Inl ForbiddenError)"
  using assms
  by (cases "status existingData"; cases "status d")
     (simp_all add: validateUpdateForChildOwner_def BookingService_validateIsSameOwner_def
       roleGatedTable_def Let_def)

lemma employee_gate:
  "(validateUpdateForEmployee i d existingData = Inr ()) =
     roleGatedTable Employee (status existingData) (status d)
       (booking_owner existingData = Some (owner d) \<and> booking_child existingData = Some (child d))"
  by (cases "status existingData"; cases "status d")
     (auto simp add: validateUpdateForEmployee_def roleGatedTable_def split: option.splits)

lemma employee_gate_errors:
  "booking_owner existingData \<noteq> None \<Longrightarrow> booking_child existingData \<noteq> None \<Longrightarrow>
     validateUpdateForEmployee i d existingData = Inr () \<or>
     validateUpdateForEmployee i d existingData = Inl ForbiddenError"
  by (auto simp: validateUpdateForEmployee_def split: if_splits option.splits)

lemma validateUpdateForChildOwner_owner:
  "validateUpdateForChildOwner e db i d existingData = Inr d1 \<Longrightarrow>
     d1 = d\<lparr>owner := user_id (currentUser e)\<rparr>"
  by (auto simp: validateUpdateForChildOwner_def Let_def andThen_eq_Inr split: if_splits)

lemma validateUpdate_result:
  assumes "validateUpdate e db i d = Inr d1"
  shows "d1 = (if isChildOwner (currentUser e) then d\<lparr>owner := user_id (currentUser e)\<rparr> else d)"
    and "validateChildAndOwnerMatch db d1 = Inr ()"
    and "\<exists>existingData. BookingService_findById e db i = Inr existingData"
  using assms
  by (auto simp: validateUpdate_def andThen_eq_Inr dest: validateUpdateForChildOwner_owner
      split: if_splits)

lemma validateUpdate_within_table:
  assumes "validateUpdate e db i d = Inr d1" "BookingService_findById e db i = Inr existingData"
  shows "(isChildOwner (currentUser e) \<longrightarrow>
            roleGatedTable ChildOwner (status existingData) (status d) True)
       \<and> (isEmployee (currentUser e) \<longrightarrow>
            roleGatedTable Employee (status existingData) (status d)
              (booking_owner existingData = Some (owner d1) \<and>
               booking_child existingData = Some (child d1)))"
  using assms
  apply (simp add: validateUpdate_def andThen_eq_Inr)
  apply (auto simp: validateUpdateForChildOwner_def validateUpdateForEmployee_def
      roleGatedTable_def Let_def BookingService_validateIsSameOwner_def andThen_eq_Inr
      split: if_splits option.splits)
  done

text \<open>
  The two role validators follow the table. With \<open>existingData\<close> the record the service
  has read for the actor, the child-owner validator accepts exactly the entries of the
  table and rejects the others with ForbiddenError; the employee validator accepts exactly
  the entries of the table, and its rejections are ForbiddenError on a record whose owner
  and child are set; and an update that passes validation lies within the table for each
  role the actor holds.
\<close>

lemma role_validators_follow_table:
  "(BookingService_findById e db i = Inr existingData \<longrightarrow>
      validateUpdateForChildOwner e db i d existingData =
        (if roleGatedTable ChildOwner (status existingData) (status d) True
         then Inr (d\<lparr>owner := user_id (currentUser e)\<rparr>) else Inl ForbiddenError))
 \<and> ((validateUpdateForEmployee i d existingData = Inr ()) =
      roleGatedTable Employee (status existingData) (status d)
        (booking_owner existingData = Some (owner d) \<and>
         booking_child existingData = Some (child d)))
 \<and> (booking_owner existingData \<noteq> None \<and> booking_child existingData \<noteq> None \<longrightarrow>
      validateUpdateForEmployee i d existingData = Inr () \<or>
      validateUpdateForEmployee i d existingData = Inl ForbiddenError)
 \<and> (validateUpdate e db i d = Inr d1 \<and> BookingService_findById e db i = Inr existingData \<longrightarrow>
      (isChildOwner (currentUser e) \<longrightarrow>
         roleGatedTable ChildOwner (status existingData) (status d) True)
    \<and> (isEmployee (currentUser e) \<longrightarrow>
         roleGatedTable Employee (status existingData) (status d)
           (booking_owner existingData = Some (owner d1) \<and>
            booking_child existingData = Some (child d1))))"
  using childOwner_gate [of e db i existingData d] employee_gate [of i d existingData]
    employee_gate_errors [of existingData i d]
    validateUpdate_within_table [of e db i d d1 existingData]
  by blast

text \<open>
  Claim C3. For every update and every triple of existing status, requested status and
  actor role (child-owner or employee), the transition is to be accepted or rejected
  exactly per the role-gated table. The validators follow the table, but the update does
  not reach them when the requested status is BOOKED or PROGRESS: the admission check,
  which runs first, calls the undeclared repository method. The table accepts an
  employee's move of the booked stay b1 to PROGRESS, and the child-owner's update of b1
  that keeps it BOOKED; the validators accept both; the update throws a TypeError on
  both.
\<close>

theorem table_accepted_update_throws_TypeError:
  "BookingService_findById employeeEnv exampleStore ''b1'' = Inr bookedStay
   \<and> roleGatedTable Employee (status bookedStay) (status (request 22 25 PROGRESS)) True
   \<and> validateUpdateForEmployee ''b1'' (request 22 25 PROGRESS) bookedStay = Inr ()
   \<and> validateUpdate employeeEnv exampleStore ''b1'' (request 22 25 PROGRESS) = Inl TypeError
   \<and> BookingService_update employeeEnv exampleStore ''b1'' (request 22 25 PROGRESS) = Inl TypeError
   \<and> roleGatedTable ChildOwner (status bookedStay) (status (request 22 25 BOOKED)) True
   \<and> validateUpdateForChildOwner ownerEnv exampleStore ''b1'' (request 22 25 BOOKED) bookedStay =
       Inr (request 22 25 BOOKED)
   \<and> validateUpdate ownerEnv exampleStore ''b1'' (request 22 25 BOOKED) = Inl TypeError
   \<and> BookingService_update ownerEnv exampleStore ''b1'' (request 22 25 BOOKED) = Inl TypeError"
  by (simp add: BookingService_update_def validateUpdate_def validatePeriodFuture_def
      validatePeriodAvailable_cases validateUpdateForEmployee_def validateUpdateForChildOwner_def
      roleGatedTable_def read_defs example_defs)

section \<open>The child/owner match\<close>

lemma create_Inr:
  "BookingService_create e db d = Inr effects \<longleftrightarrow>
     validateCreate e db d = Inr () \<and>
     effects = [CreateBooking (d\<lparr>fee := calculateFee e db d\<rparr>), CommitBatch]"
  by (auto simp: BookingService_create_def andThen_eq_Inr Let_def)

lemma update_Inr:
  "BookingService_update e db i d = Inr effects \<longleftrightarrow>
     (\<exists>d1 mustSend. validateUpdate e db i d = Inr d1 \<and>
        mustSendBookingUpdateEmail e db i (d1\<lparr>fee := calculateFee e db d1\<rparr>) = Inr mustSend \<and>
        effects = [UpdateBooking i (d1\<lparr>fee := calculateFee e db d1\<rparr>), CommitBatch] @
                  (if mustSend then [SendBookingUpdateEmail i] else []))"
  by (auto simp: BookingService_update_def andThen_eq_Inr Let_def)

lemma validateChildAndOwnerMatch_mismatch:
  assumes "childRepository_findById (children db) (child d) = Inr c" "child_owner c = Some co"
  shows "validateChildAndOwnerMatch db d = (if co \<noteq> owner d then Inl ForbiddenError else Inr ())"
  using assms by (simp add: validateChildAndOwnerMatch_def)

lemma create_mismatch:
  assumes "childRepository_findById (children db) (child d) = Inr c" "child_owner c = Some co"
     "co \<noteq> owner d"
  shows "\<exists>err. BookingService_create e db d = Inl err"
    and "validatePeriodFuture e d = Inr () \<Longrightarrow> validatePeriodAvailable db None d = Inr () \<Longrightarrow>
           BookingService_create e db d = Inl ForbiddenError"
proof -
  note m = validateChildAndOwnerMatch_mismatch [OF assms(1,2)]
  show "\<exists>err. BookingService_create e db d = Inl err"
    by (cases "validatePeriodFuture e d"; cases "validatePeriodAvailable db None d")
       (simp_all add: BookingService_create_def validateCreate_def m assms(3))
  show "validatePeriodFuture e d = Inr () \<Longrightarrow> validatePeriodAvailable db None d = Inr () \<Longrightarrow>
           BookingService_create e db d = Inl ForbiddenError"
    by (simp add: BookingService_create_def validateCreate_def m assms(3))
qed

lemma update_mismatch:
  assumes "childRepository_findById (children db) (child d) = Inr c" "child_owner c = Some co"
     "co \<noteq> (if isChildOwner (currentUser e) then user_id (currentUser e) else owner d)"
  shows "\<exists>err. BookingService_update e db i d = Inl err"
proof (cases "BookingService_update e db i d")
  case (Inl a)
  then show ?thesis by simp
next
  case (Inr effects)
  then obtain d1 where v: "validateUpdate e db i d = Inr d1"
    by (auto simp: update_Inr)
  from validateUpdate_result(1,2) [OF v] assms show ?thesis
    by (auto simp: validateChildAndOwnerMatch_def split: if_splits)
qed

lemma update_mismatch_Forbidden:
  assumes "childRepository_findById (children db) (child d) = Inr c" "child_owner c = Some co"
     "co \<noteq> (if isChildOwner (currentUser e) then user_id (currentUser e) else owner d)"
     "validatePeriodFuture e d = Inr ()" "validatePeriodAvailable db (Some i) d = Inr ()"
     "BookingService_findById e db i = Inr existingData"
     "booking_owner existingData \<noteq> None" "booking_child existingData \<noteq> None"
  shows "BookingService_update e db i d = Inl ForbiddenError"
proof -
  have m: "validateChildAndOwnerMatch db (d\<lparr>owner := x\<rparr>) =
      (if co \<noteq> x then Inl ForbiddenError else Inr ())" for x
    using assms(1,2) by (simp add: validateChildAndOwnerMatch_def)
  have m0: "validateChildAndOwnerMatch db d =
      (if co \<noteq> owner d then Inl ForbiddenError else Inr ())"
    using assms(1,2) by (simp add: validateChildAndOwnerMatch_def)
  from employee_gate_errors [OF assms(7,8)]
  have em: "validateUpdateForEmployee i d' existingData = Inr () \<or>
      validateUpdateForEmployee i d' existingData = Inl ForbiddenError" for d'
    by simp
  show ?thesis
  proof (cases "isChildOwner (currentUser e)")
    case True
    with assms(3) have ne: "co \<noteq> user_id (currentUser e)" by simp
    have co: "validateUpdateForChildOwner e db i d existingData =
          Inr (d\<lparr>owner := user_id (currentUser e)\<rparr>)
        \<or> validateUpdateForChildOwner e db i d existingData = Inl ForbiddenError"
      using assms(6)
      by (auto simp: validateUpdateForChildOwner_def BookingService_validateIsSameOwner_def Let_def)
    from co em [of "d\<lparr>owner := user_id (currentUser e)\<rparr>"] show ?thesis
      using True ne assms(4,5,6)
      by (auto simp: BookingService_update_def validateUpdate_def m)
  next
    case False
    with assms(3) have ne: "co \<noteq> owner d" by simp
    from em [of d] show ?thesis
      using False ne assms(4,5,6)
      by (auto simp: BookingService_update_def validateUpdate_def m0)
  qed
qed

text \<open>
  Claim C5, as stated: on every create and update, by any role, a payload owner that is not
  the owner of the referenced child makes the operation fail with ForbiddenError before
  any write. It fails on two counts. A child-owner's update replaces the payload owner by
  the actor's id before the match: the owner of child c1 cancels the booking b1 with the
  payload owner u9, and the update is written. And the match is the last validation
  step: an employee's create with the owner u9 and an arrival after the departure fails
  with the ValidationError of the period check.
\<close>

theorem owner_mismatch_counterexample:
  "childRepository_findById (children exampleStore) (child (request 22 25 CANCELLED)) =
     Inr \<lparr>child_id = ''c1'', child_owner = Some ''u1'', child_name = ''Ada''\<rparr>
   \<and> owner ((request 22 25 CANCELLED)\<lparr>owner := ''u9''\<rparr>) = ''u9''
   \<and> BookingService_update ownerEnv exampleStore ''b1'' ((request 22 25 CANCELLED)\<lparr>owner := ''u9''\<rparr>) =
     Inr [UpdateBooking ''b1'' ((request 22 25 CANCELLED)\<lparr>fee := 40\<rparr>), CommitBatch]
   \<and> BookingService_create employeeEnv exampleStore ((request 30 20 BOOKED)\<lparr>owner := ''u9''\<rparr>) =
     Inl (ValidationError ''entities.booking.validation.arrivalAfterDeparture'')"
  by (simp add: BookingService_update_def BookingService_create_def validateUpdate_def
      validateCreate_def validatePeriodFuture_def validatePeriodAvailable_cases
      validateUpdateForChildOwner_def mustSendBookingUpdateEmail_def calculateFee_def
      read_defs example_defs)

text \<open>
  Claim C5, amended. On every create and update, by any role, when the owner to be
  written (the payload owner; on a child-owner's update, the actor's own id, which
  replaces it) is not the owner of the referenced child, the operation fails before any
  write; the failure is ForbiddenError whenever the period and admission checks, which
  run first, have passed (on update: and the booking to update has been read, with its
  owner and child set).
\<close>

theorem owner_mismatch_blocks_write:
  "childRepository_findById (children db) (child d) = Inr c \<and> child_owner c = Some co \<longrightarrow>
     (co \<noteq> owner d \<longrightarrow>
        (\<exists>err. BookingService_create e db d = Inl err)
      \<and> (validatePeriodFuture e d = Inr () \<and> validatePeriodAvailable db None d = Inr () \<longrightarrow>
           BookingService_create e db d = Inl ForbiddenError))
   \<and> (co \<noteq> (if isChildOwner (currentUser e) then user_id (currentUser e) else owner d) \<longrightarrow>
        (\<exists>err. BookingService_update e db i d = Inl err)
      \<and> (validatePeriodFuture e d = Inr () \<and> validatePeriodAvailable db (Some i) d = Inr ()
           \<and> BookingService_findById e db i = Inr existingData
           \<and> booking_owner existingData \<noteq> None \<and> booking_child existingData \<noteq> None \<longrightarrow>
           BookingService_update e db i d = Inl ForbiddenError))"
  using create_mismatch [of db d c co e] update_mismatch [of db d c co e i]
    update_mismatch_Forbidden [of db d c co e i existingData]
  by blast

theorem owner_mismatch_blocks_write_witness:
  "BookingService_create employeeEnv exampleStore ((request 22 25 CANCELLED)\<lparr>owner := ''u9''\<rparr>) =
     Inl ForbiddenError
   \<and> BookingService_update employeeEnv exampleStore ''b1'' ((request 22 25 CANCELLED)\<lparr>owner := ''u9''\<rparr>) =
     Inl ForbiddenError"
proof -
  let ?d = "(request 22 25 CANCELLED)\<lparr>owner := ''u9''\<rparr>"
  have c: "childRepository_findById (children exampleStore) (child ?d) =
        Inr \<lparr>child_id = ''c1'', child_owner = Some ''u1'', child_name = ''Ada''\<rparr>
      \<and> child_owner \<lparr>child_id = ''c1'', child_owner = Some ''u1'', child_name = ''Ada''\<rparr> = Some ''u1''"
    by (simp add: read_defs example_defs)
  have ne: "''u1'' \<noteq> owner ?d"
      "''u1'' \<noteq> (if isChildOwner (currentUser employeeEnv) then user_id (currentUser employeeEnv)
                    else owner ?d)"
    by (simp_all add: example_defs)
  have checks: "validatePeriodFuture employeeEnv ?d = Inr ()"
      "validatePeriodAvailable exampleStore None ?d = Inr ()"
      "validatePeriodAvailable exampleStore (Some ''b1'') ?d = Inr ()"
    by (simp_all add: validatePeriodFuture_def validatePeriodAvailable_cases example_defs)
  have rd: "BookingService_findById employeeEnv exampleStore ''b1'' = Inr bookedStay"
      "booking_owner bookedStay \<noteq> None" "booking_child bookedStay \<noteq> None"
    by (simp_all add: read_defs example_defs)
  from owner_mismatch_blocks_write
         [of exampleStore ?d "\<lparr>child_id = ''c1'', child_owner = Some ''u1'', child_name = ''Ada''\<rparr>"
             "''u1''" employeeEnv "''b1''" bookedStay]
       c ne checks rd
  show ?thesis by blast
qed

section \<open>The fee\<close>

lemma validatePeriodFuture_fee:
  "validatePeriodFuture e (d\<lparr>fee := f\<rparr>) =
     validatePeriodFuture e d"
  by (simp add: validatePeriodFuture_def)

lemma validatePeriodAvailable_fee:
  "validatePeriodAvailable db i (d\<lparr>fee := f\<rparr>) =
     validatePeriodAvailable db i d"
  by (simp add: validatePeriodAvailable_def)

lemma validateChildAndOwnerMatch_fee:
  "validateChildAndOwnerMatch db (d\<lparr>fee := f\<rparr>) =
     validateChildAndOwnerMatch db d"
  by (simp add: validateChildAndOwnerMatch_def cong: if_cong option.case_cong)

lemma calculateFee_fee: "calculateFee e db (d\<lparr>fee := f\<rparr>) = calculateFee e db d"
  by (simp add: calculateFee_def)

lemma calculateFee_owner: "calculateFee e db (d\<lparr>owner := x\<rparr>) = calculateFee e db d"
  by (simp add: calculateFee_def)

lemma validateCreate_fee: "validateCreate e db (d\<lparr>fee := f\<rparr>) = validateCreate e db d"
  by (simp add: validateCreate_def validatePeriodFuture_fee validatePeriodAvailable_fee
      validateChildAndOwnerMatch_fee)

lemma create_fee:
  "BookingService_create e db (d\<lparr>fee := f\<rparr>) =
     BookingService_create e db d"
  by (simp add: BookingService_create_def validateCreate_fee calculateFee_fee)

lemma validateUpdateForEmployee_fee:
  "validateUpdateForEmployee i (d\<lparr>fee := f\<rparr>) existingData =
     validateUpdateForEmployee i d existingData"
  by (simp add: validateUpdateForEmployee_def cong: if_cong option.case_cong)

lemma mustSend_fee:
  "mustSendBookingUpdateEmail e db i (d\<lparr>fee := f\<rparr>) =
     mustSendBookingUpdateEmail e db i d"
  by (simp add: mustSendBookingUpdateEmail_def hasChangedEmployeeNotesOrPhotos_def cong: if_cong)

lemma mustSend_owner:
  "mustSendBookingUpdateEmail e db i (d\<lparr>owner := f\<rparr>) =
     mustSendBookingUpdateEmail e db i d"
  by (simp add: mustSendBookingUpdateEmail_def hasChangedEmployeeNotesOrPhotos_def cong: if_cong)

lemma validateUpdateForChildOwner_fee:
  "validateUpdateForChildOwner e db i (d\<lparr>fee := f\<rparr>) ex =
     andThen (validateUpdateForChildOwner e db i d ex) (\<lambda>d1. Inr (d1\<lparr>fee := f\<rparr>))"
  by (cases "BookingService_validateIsSameOwner e db i")
     (simp_all add: validateUpdateForChildOwner_def Let_def)

lemma validateUpdate_fee:
  "validateUpdate e db i (d\<lparr>fee := f\<rparr>) =
     andThen (validateUpdate e db i d) (\<lambda>d1. Inr (d1\<lparr>fee := f\<rparr>))"
proof (cases "validatePeriodFuture e d")
  case (Inl a) then show ?thesis by (simp add: validateUpdate_def validatePeriodFuture_fee)
next
  case pf: (Inr u)
  show ?thesis
  proof (cases "validatePeriodAvailable db (Some i) d")
    case (Inl a) then show ?thesis using pf
      by (simp add: validateUpdate_def validatePeriodFuture_fee validatePeriodAvailable_fee)
  next
    case pa: (Inr u')
    show ?thesis
    proof (cases "BookingService_findById e db i")
      case (Inl a) then show ?thesis using pf pa
        by (simp add: validateUpdate_def validatePeriodFuture_fee validatePeriodAvailable_fee)
    next
      case fb: (Inr ex)
      show ?thesis
      proof (cases "isChildOwner (currentUser e)")
        case True
        show ?thesis
        proof (cases "validateUpdateForChildOwner e db i d ex")
          case (Inl a) then show ?thesis using pf pa fb True
            by (simp add: validateUpdate_def validatePeriodFuture_fee validatePeriodAvailable_fee
                validateUpdateForChildOwner_fee)
        next
          case (Inr d1) then show ?thesis using pf pa fb True
            by (cases "isEmployee (currentUser e)"; cases "validateUpdateForEmployee i d1 ex";
                cases "validateChildAndOwnerMatch db d1")
               (simp_all add: validateUpdate_def validatePeriodFuture_fee validatePeriodAvailable_fee
                validateUpdateForChildOwner_fee validateUpdateForEmployee_fee
                validateChildAndOwnerMatch_fee)
        qed
      next
        case False
        then show ?thesis using pf pa fb
          by (cases "isEmployee (currentUser e)"; cases "validateUpdateForEmployee i d ex";
              cases "validateChildAndOwnerMatch db d")
             (simp_all add: validateUpdate_def validatePeriodFuture_fee validatePeriodAvailable_fee
              validateUpdateForEmployee_fee validateChildAndOwnerMatch_fee)
      qed
    qed
  qed
qed

lemma update_fee:
  "BookingService_update e db i (d\<lparr>fee := f\<rparr>) =
     BookingService_update e db i d"
  by (cases "validateUpdate e db i d")
     (simp_all add: BookingService_update_def validateUpdate_fee calculateFee_fee mustSend_fee Let_def)

lemma find_replace:
  "find (\<lambda>b. booking_id b = i) bs = Some x \<Longrightarrow> booking_id y = i \<Longrightarrow>
     find (\<lambda>b. booking_id b = i) (map (\<lambda>b. if booking_id b = i then y else b) bs) = Some y"
  by (induction bs) (auto split: if_splits)

lemma find_append_fresh:
  "i \<notin> booking_id ` set bs \<Longrightarrow> booking_id y = i \<Longrightarrow>
     find (\<lambda>b. booking_id b = i) (bs @ [y]) = Some y"
  by (induction bs) auto

lemma findById_exists:
  "BookingService_findById e db i = Inr ex \<Longrightarrow> find (\<lambda>b. booking_id b = i) (bookings db) = Some ex"
  by (auto simp: BookingService_findById_def repository_findById_def findDocument_def andThen_eq_Inr
      split: option.splits)

lemma storeAfter_create:
  assumes "newId \<notin> booking_id ` set (bookings db)"
  shows "findDocument (bookings (storeAfter newId db (Inr [CreateBooking d1, CommitBatch]))) newId =
           Inr (toDocument newId d1)"
  using find_append_fresh [OF assms, of "toDocument newId d1"]
  by (simp add: storeAfter_def findDocument_def toDocument_def)

lemma storeAfter_update:
  assumes "BookingService_findById e db i = Inr ex"
  shows "findDocument (bookings (storeAfter newId db
           (Inr ([UpdateBooking i d2, CommitBatch] @ (if m then [SendBookingUpdateEmail i] else []))))) i =
           Inr (toDocument i d2)"
  using find_replace [OF findById_exists [OF assms], of "toDocument i d2"]
  by (simp add: storeAfter_def findDocument_def toDocument_def)

lemma fee_toDocument: "fee (toDocument i d) = fee d"
  by (simp add: toDocument_def)

lemma new_photo_iff:
  "list_ex (\<lambda>p. \<not> list_ex (\<lambda>oldPhoto. photo_id oldPhoto = photo_id p) olds) news \<longleftrightarrow>
     (\<exists>p\<in>set news. photo_id p \<notin> photo_id ` set olds)"
  unfolding list_ex_iff image_iff by metis

lemma mustSend_decision:
  assumes "BookingService_findById e db i = Inr oldRecord"
  shows "mustSendBookingUpdateEmail e db i d = Inr (notificationWarranted oldRecord d)"
  using assms
  by (simp add: mustSendBookingUpdateEmail_def hasChangedEmployeeNotesOrPhotos_def
      new_photo_iff notificationWarranted_def)

lemma update_after_validation:
  "BookingService_update e db i d = andThen (validateUpdate e db i d) (updateValidated e db i)"
  by (cases "validateUpdate e db i d")
     (simp_all add: BookingService_update_def updateValidated_def)

lemma updateValidated_effects:
  assumes "BookingService_findById e db i = Inr oldRecord"
  shows "updateValidated e db i d =
     Inr ([UpdateBooking i (d\<lparr>fee := calculateFee e db d\<rparr>), CommitBatch] @
          (if notificationWarranted oldRecord d then [SendBookingUpdateEmail i] else []))"
  using mustSend_decision [OF assms, of d]
  by (simp add: updateValidated_def Let_def mustSend_fee)

lemma create_of_validated:
  "validateCreate e db d = Inr () \<Longrightarrow>
     BookingService_create e db d =
       Inr [CreateBooking (d\<lparr>fee := BookingFeeCalculator_calculate e (arrival d) (departure d)
                                      (dailyFee (settingsDoc db))\<rparr>), CommitBatch]"
  by (simp add: BookingService_create_def calculateFee_def)

lemma update_of_validated:
  assumes "validateUpdate e db i d = Inr d1"
  shows "\<exists>notification.
     BookingService_update e db i d =
       Inr ([UpdateBooking i (d1\<lparr>fee := BookingFeeCalculator_calculate e (arrival d) (departure d)
                                         (dailyFee (settingsDoc db))\<rparr>), CommitBatch] @ notification)
     \<and> set notification \<subseteq> {SendBookingUpdateEmail i}"
proof -
  from validateUpdate_result(3) [OF assms]
  obtain pre where rd: "BookingService_findById e db i = Inr pre" ..
  from validateUpdate_result(1) [OF assms]
  have cf: "calculateFee e db d1 = BookingFeeCalculator_calculate e (arrival d) (departure d)
                      (dailyFee (settingsDoc db))"
    by (auto simp: calculateFee_def split: if_splits)
  show ?thesis
    using updateValidated_effects [OF rd, of d1] assms cf
    by (auto simp: update_after_validation)
qed

text \<open>
  Claim C6. On every create and every update the persisted fee is recomputed from the
  payload's arrival and departure and the daily fee of the settings; a fee supplied in the
  payload is overwritten and never persisted. The operations do not depend on the
  payload's fee at all; a create and an update whose validation passes go on to write the
  booking with the computed fee and to commit; and the booking an operation has written,
  and the document found under its id in the store afterwards, carry the computed fee.
\<close>

theorem fee_is_recomputed:
  "BookingService_create e db (d\<lparr>fee := f\<rparr>) = BookingService_create e db d
 \<and> BookingService_update e db i (d\<lparr>fee := f\<rparr>) = BookingService_update e db i d
 \<and> (validateCreate e db d = Inr () \<longrightarrow>
      BookingService_create e db d =
        Inr [CreateBooking (d\<lparr>fee := BookingFeeCalculator_calculate e (arrival d) (departure d)
                                       (dailyFee (settingsDoc db))\<rparr>), CommitBatch])
 \<and> (validateUpdate e db i d = Inr d1 \<longrightarrow>
      (\<exists>notification.
          BookingService_update e db i d =
            Inr ([UpdateBooking i
                    (d1\<lparr>fee := BookingFeeCalculator_calculate e (arrival d) (departure d)
                                   (dailyFee (settingsDoc db))\<rparr>), CommitBatch] @ notification)
        \<and> set notification \<subseteq> {SendBookingUpdateEmail i}))
 \<and> (BookingService_create e db d = Inr effects \<longrightarrow>
      effects = [CreateBooking (d\<lparr>fee := BookingFeeCalculator_calculate e (arrival d) (departure d)
                                          (dailyFee (settingsDoc db))\<rparr>), CommitBatch]
    \<and> (newId \<notin> booking_id ` set (bookings db) \<longrightarrow>
         (\<exists>b. findDocument (bookings (storeAfter newId db (Inr effects))) newId = Inr b
            \<and> fee b = BookingFeeCalculator_calculate e (arrival d) (departure d)
                        (dailyFee (settingsDoc db)))))
 \<and> (BookingService_update e db i d = Inr effects \<longrightarrow>
      (\<exists>d2 notification.
          effects = [UpdateBooking i d2, CommitBatch] @ notification
        \<and> set notification \<subseteq> {SendBookingUpdateEmail i}
        \<and> fee d2 = BookingFeeCalculator_calculate e (arrival d) (departure d)
                      (dailyFee (settingsDoc db)))
    \<and> (\<exists>b. findDocument (bookings (storeAfter newId db (Inr effects))) i = Inr b
          \<and> fee b = BookingFeeCalculator_calculate e (arrival d) (departure d)
                      (dailyFee (settingsDoc db))))"
proof (intro conjI impI)
  show "BookingService_create e db (d\<lparr>fee := f\<rparr>) = BookingService_create e db d"
    by (rule create_fee)
  show "BookingService_update e db i (d\<lparr>fee := f\<rparr>) = BookingService_update e db i d"
    by (rule update_fee)
next
  assume "validateCreate e db d = Inr ()"
  then show "BookingService_create e db d =
        Inr [CreateBooking (d\<lparr>fee := BookingFeeCalculator_calculate e (arrival d) (departure d)
                                       (dailyFee (settingsDoc db))\<rparr>), CommitBatch]"
    by (rule create_of_validated)
next
  assume "validateUpdate e db i d = Inr d1"
  then show "\<exists>notification.
          BookingService_update e db i d =
            Inr ([UpdateBooking i
                    (d1\<lparr>fee := BookingFeeCalculator_calculate e (arrival d) (departure d)
                                   (dailyFee (settingsDoc db))\<rparr>), CommitBatch] @ notification)
        \<and> set notification \<subseteq> {SendBookingUpdateEmail i}"
    by (rule update_of_validated)
next
  assume "BookingService_create e db d = Inr effects"
  then show "effects = [CreateBooking (d\<lparr>fee := BookingFeeCalculator_calculate e (arrival d) (departure d)
                                          (dailyFee (settingsDoc db))\<rparr>), CommitBatch]"
    by (simp add: create_Inr calculateFee_def)
next
  assume c: "BookingService_create e db d = Inr effects" and fresh: "newId \<notin> booking_id ` set (bookings db)"
  from c have "effects = [CreateBooking (d\<lparr>fee := calculateFee e db d\<rparr>), CommitBatch]"
    by (simp add: create_Inr)
  with storeAfter_create [OF fresh, of "d\<lparr>fee := calculateFee e db d\<rparr>"]
  show "\<exists>b. findDocument (bookings (storeAfter newId db (Inr effects))) newId = Inr b
            \<and> fee b = BookingFeeCalculator_calculate e (arrival d) (departure d)
                        (dailyFee (settingsDoc db))"
    by (simp add: fee_toDocument calculateFee_def)
next
  assume u: "BookingService_update e db i d = Inr effects"
  then obtain d1 m where v: "validateUpdate e db i d = Inr d1"
    and eff: "effects = [UpdateBooking i (d1\<lparr>fee := calculateFee e db d1\<rparr>), CommitBatch] @
                  (if m then [SendBookingUpdateEmail i] else [])"
    by (auto simp: update_Inr)
  from validateUpdate_result(1) [OF v]
  have cf: "calculateFee e db d1 = BookingFeeCalculator_calculate e (arrival d) (departure d)
                      (dailyFee (settingsDoc db))"
    by (auto simp: calculateFee_def split: if_splits)
  from validateUpdate_result(3) [OF v] obtain ex where ex: "BookingService_findById e db i = Inr ex" ..
  show "\<exists>d2 notification.
          effects = [UpdateBooking i d2, CommitBatch] @ notification
        \<and> set notification \<subseteq> {SendBookingUpdateEmail i}
        \<and> fee d2 = BookingFeeCalculator_calculate e (arrival d) (departure d)
                      (dailyFee (settingsDoc db))"
    using eff cf by (intro exI [of _ "d1\<lparr>fee := calculateFee e db d1\<rparr>"]
        exI [of _ "if m then [SendBookingUpdateEmail i] else []"]) auto
  show "\<exists>b. findDocument (bookings (storeAfter newId db (Inr effects))) i = Inr b
          \<and> fee b = BookingFeeCalculator_calculate e (arrival d) (departure d)
                      (dailyFee (settingsDoc db))"
    unfolding eff using storeAfter_update [OF ex, of newId "d1\<lparr>fee := calculateFee e db d1\<rparr>" m] cf
    by (simp add: fee_toDocument)
qed

theorem fee_is_recomputed_witness:
  "BookingService_create employeeEnv exampleStore ((request 22 25 CANCELLED)\<lparr>fee := 999\<rparr>) =
     Inr [CreateBooking ((request 22 25 CANCELLED)\<lparr>fee := 40\<rparr>), CommitBatch]
   \<and> (\<exists>b. findDocument (bookings (storeAfter ''b9'' exampleStore
              (BookingService_create employeeEnv exampleStore
                 ((request 22 25 CANCELLED)\<lparr>fee := 999\<rparr>)))) ''b9'' = Inr b
          \<and> fee b = 40)
   \<and> BookingService_update employeeEnv exampleStore ''b1'' ((request 22 25 CANCELLED)\<lparr>fee := 999\<rparr>) =
     Inr [UpdateBooking ''b1'' ((request 22 25 CANCELLED)\<lparr>fee := 40\<rparr>), CommitBatch]
   \<and> (\<exists>b. findDocument (bookings (storeAfter ''b9'' exampleStore
              (BookingService_update employeeEnv exampleStore ''b1''
                 ((request 22 25 CANCELLED)\<lparr>fee := 999\<rparr>)))) ''b1'' = Inr b
          \<and> fee b = 40)
   \<and> (\<exists>notification.
         BookingService_update ownerEnv exampleStore ''b1'' ((request 22 25 CANCELLED)\<lparr>fee := 999\<rparr>) =
           Inr ([UpdateBooking ''b1'' ((request 22 25 CANCELLED)\<lparr>fee := 40\<rparr>), CommitBatch] @
                notification))"
proof -
  let ?d = "request 22 25 CANCELLED"
  let ?c = "[CreateBooking (?d\<lparr>fee := 40\<rparr>), CommitBatch]"
  let ?u = "[UpdateBooking ''b1'' (?d\<lparr>fee := 40\<rparr>), CommitBatch]"
  have vc: "validateCreate employeeEnv exampleStore ?d = Inr ()"
    by (simp add: validateCreate_def validatePeriodFuture_def validatePeriodAvailable_cases
        read_defs example_defs)
  have vu: "validateUpdate ownerEnv exampleStore ''b1'' ?d = Inr ?d"
    by (simp add: validateUpdate_def validatePeriodFuture_def validatePeriodAvailable_cases
        validateUpdateForChildOwner_def read_defs example_defs)
  have u: "BookingService_update employeeEnv exampleStore ''b1'' ?d = Inr ?u"
    by (simp add: BookingService_update_def validateUpdate_def validatePeriodFuture_def
        validatePeriodAvailable_cases validateUpdateForEmployee_def mustSendBookingUpdateEmail_def
        calculateFee_def read_defs example_defs)
  have fresh: "''b9'' \<notin> booking_id ` set (bookings exampleStore)"
    by (simp add: example_defs)
  have v: "BookingFeeCalculator_calculate employeeEnv (arrival ?d) (departure ?d)
      (dailyFee (settingsDoc exampleStore)) = 40"
      "BookingFeeCalculator_calculate ownerEnv (arrival ?d) (departure ?d)
      (dailyFee (settingsDoc exampleStore)) = 40"
    by (simp_all add: example_defs)
  from fee_is_recomputed [where e = employeeEnv and db = exampleStore and d = ?d and f = 999
         and i = "''b1''" and effects = ?c and newId = "''b9''"] vc v
  have c: "BookingService_create employeeEnv exampleStore ?d = Inr ?c"
    and 1: "BookingService_create employeeEnv exampleStore (?d\<lparr>fee := 999\<rparr>) =
      BookingService_create employeeEnv exampleStore ?d"
    by simp_all
  from fee_is_recomputed [where e = employeeEnv and db = exampleStore and d = ?d and f = 999
         and i = "''b1''" and effects = ?c and newId = "''b9''"] c fresh v
  have 2: "\<exists>b. findDocument (bookings (storeAfter ''b9'' exampleStore (Inr ?c))) ''b9'' = Inr b
          \<and> fee b = 40"
    by simp
  from fee_is_recomputed [where e = employeeEnv and db = exampleStore and d = ?d and f = 999
         and i = "''b1''" and effects = ?u and newId = "''b9''"] u v
  have 3: "BookingService_update employeeEnv exampleStore ''b1'' (?d\<lparr>fee := 999\<rparr>) = Inr ?u"
    and 4: "\<exists>b. findDocument (bookings (storeAfter ''b9'' exampleStore (Inr ?u))) ''b1'' = Inr b
          \<and> fee b = 40"
    by simp_all
  from fee_is_recomputed [where e = ownerEnv and db = exampleStore and d = ?d and f = 999
         and i = "''b1''" and ?d1.0 = ?d] vu v
  have 5: "\<exists>notification.
         BookingService_update ownerEnv exampleStore ''b1'' (?d\<lparr>fee := 999\<rparr>) =
           Inr ([UpdateBooking ''b1'' (?d\<lparr>fee := 40\<rparr>), CommitBatch] @ notification)"
    by simp blast
  from 1 c 2 3 4 5 show ?thesis by simp
qed

section \<open>The update notification\<close>




section \<open>Destroying bookings\<close>

text \<open>
  Claim C8. \<open>destroyAll\<close> of the booking service is to re-validate every id for ownership
  and guards before deletion, a failure on any id aborting the batch. The booking service
  puts every deletion on the batch and commits, with no validation at all, where
  \<open>destroyAll\<close> of the child service validates each id first. The child-owner u2 may not
  read the booking b1 of u1, yet destroys it: the deletion is committed and the booking is
  gone; the same actor's destroy of the child c1 of u1 is refused.
\<close>

theorem destroyAll_deletes_foreign_booking:
  "BookingService_findById strangerEnv exampleStore ''b1'' = Inl ForbiddenError
   \<and> BookingService_destroyAll strangerEnv exampleStore [''b1''] =
       Inr [DestroyBooking ''b1'', CommitBatch]
   \<and> bookings (storeAfter ''b9'' exampleStore
        (BookingService_destroyAll strangerEnv exampleStore [''b1''])) = [runningStay]
   \<and> ChildService_destroyAll strangerEnv exampleStore [''c1''] = Inl ForbiddenError"
  by (simp add: BookingService_destroyAll_def storeAfter_def ChildService_destroyAll_def
      validateDestroy_def ChildService_validateIsSameOwner_def ChildService_findById_def
      ChildService_validateFindById_def read_defs example_defs)

section \<open>Destroying a child\<close>

lemmas child_read_defs =
  ChildService_validateIsSameOwner_def ChildService_findById_def
  ChildService_validateFindById_def childRepository_findById_def

lemma existsForChild_iff:
  "existsForChild bs i \<longleftrightarrow> (\<exists>b\<in>set bs. booking_child b = Some i)"
proof -
  have "existsForChild bs i \<longleftrightarrow> filter (\<lambda>b. booking_child b = Some i) bs \<noteq> []"
    by (cases "filter (\<lambda>b. booking_child b = Some i) bs") (simp_all add: existsForChild_def)
  then show ?thesis by (simp add: filter_empty_conv)
qed

lemma destroyAll_batch_fails:
  "i \<in> set ids \<Longrightarrow> validateDestroy e db i = Inl err \<Longrightarrow>
     \<exists>err'. ChildService_destroyAll_batch e db ids = Inl err'"
  by (induction ids) (auto split: sum.splits)

text \<open>
  Claim C9, as stated: destroying a child that a booking references fails with the
  ValidationError bookingExists. For a child-owner the ownership check comes first: the
  child c1 of u1 has bookings, and for the child-owner u2 its destroy guard fails with
  ForbiddenError.
\<close>

theorem foreign_child_counterexample:
  "existsForChild (bookings exampleStore) ''c1''
   \<and> validateDestroy strangerEnv exampleStore ''c1'' = Inl ForbiddenError"
  by (simp add: existsForChild_def validateDestroy_def child_read_defs example_defs)

text \<open>
  Claim C9, amended. A booking references the child exactly when \<open>existsForChild\<close> holds.
  For every child id, destroying the child while at least one booking references it
  fails, and the store, the child record with it, is left unchanged; the failure is the
  ValidationError with the key bookingExists whenever the actor is not a child-owner or
  the ownership check on the child passes. When no booking references the child and the
  actor is not a child-owner or the ownership check passes, the destroy guard passes.
\<close>

theorem child_with_bookings_is_kept:
  "(existsForChild (bookings db) i \<longleftrightarrow> (\<exists>b\<in>set (bookings db). booking_child b = Some i))
 \<and> (existsForChild (bookings db) i \<longrightarrow>
      (\<exists>err. validateDestroy e db i = Inl err)
    \<and> (i \<in> set ids \<longrightarrow>
         (\<exists>err. ChildService_destroyAll e db ids = Inl err)
       \<and> storeAfter newId db (ChildService_destroyAll e db ids) = db)
    \<and> (\<not> isChildOwner (currentUser e) \<or> ChildService_validateIsSameOwner e db i = Inr () \<longrightarrow>
         validateDestroy e db i =
           Inl (ValidationError ''entities.child.validation.bookingExists'')))
 \<and> (\<not> existsForChild (bookings db) i \<and>
     (\<not> isChildOwner (currentUser e) \<or> ChildService_validateIsSameOwner e db i = Inr ()) \<longrightarrow>
      validateDestroy e db i = Inr ())"
proof -
  have fails: "\<exists>err. validateDestroy e db i = Inl err" if "existsForChild (bookings db) i"
    using that
    by (cases "ChildService_validateIsSameOwner e db i") (auto simp: validateDestroy_def)
  have kept: "(\<exists>err. ChildService_destroyAll e db ids = Inl err)
       \<and> storeAfter newId db (ChildService_destroyAll e db ids) = db"
    if "existsForChild (bookings db) i" "i \<in> set ids"
  proof -
    from fails [OF that(1)] obtain err where "validateDestroy e db i = Inl err" ..
    from destroyAll_batch_fails [OF that(2) this]
    obtain err' where "ChildService_destroyAll_batch e db ids = Inl err'" ..
    then show ?thesis by (simp add: ChildService_destroyAll_def storeAfter_def)
  qed
  show ?thesis
    using fails kept existsForChild_iff [of "bookings db" i]
    by (auto simp: validateDestroy_def)
qed

theorem child_with_bookings_is_kept_witness:
  "validateDestroy employeeEnv exampleStore ''c1'' =
     Inl (ValidationError ''entities.child.validation.bookingExists'')
   \<and> validateDestroy ownerEnv exampleStore ''c1'' =
     Inl (ValidationError ''entities.child.validation.bookingExists'')
   \<and> storeAfter ''b9'' exampleStore (ChildService_destroyAll employeeEnv exampleStore [''c2'', ''c1'']) =
     exampleStore
   \<and> validateDestroy strangerEnv exampleStore ''c2'' = Inr ()"
proof -
  have ex: "existsForChild (bookings exampleStore) ''c1''"
      "\<not> existsForChild (bookings exampleStore) ''c2''"
    by (simp_all add: existsForChild_def example_defs)
  have emp: "\<not> isChildOwner (currentUser employeeEnv)"
    by (simp add: example_defs)
  have own: "ChildService_validateIsSameOwner ownerEnv exampleStore ''c1'' = Inr ()"
      "ChildService_validateIsSameOwner strangerEnv exampleStore ''c2'' = Inr ()"
    by (simp_all add: child_read_defs example_defs)
  have mem: "''c1'' \<in> set [''c2'', ''c1'']"
    by simp
  from child_with_bookings_is_kept
         [of exampleStore "''c1''" employeeEnv "[''c2'', ''c1'']" "''b9''"] ex emp mem
  have 1: "validateDestroy employeeEnv exampleStore ''c1'' =
       Inl (ValidationError ''entities.child.validation.bookingExists'')"
    and 2: "storeAfter ''b9'' exampleStore
       (ChildService_destroyAll employeeEnv exampleStore [''c2'', ''c1'']) = exampleStore"
    by blast+
  from child_with_bookings_is_kept
         [of exampleStore "''c1''" ownerEnv "[''c2'', ''c1'']" "''b9''"] ex own
  have 3: "validateDestroy ownerEnv exampleStore ''c1'' =
       Inl (ValidationError ''entities.child.validation.bookingExists'')"
    by blast
  from child_with_bookings_is_kept
         [of exampleStore "''c2''" strangerEnv "[''c2'', ''c1'']" "''b9''"] ex own
  have 4: "validateDestroy strangerEnv exampleStore ''c2'' = Inr ()"
    by blast
  from 1 2 3 4 show ?thesis by simp
qed

section \<open>Listing bookings\<close>

lemma filter_owner_appendIdIf:
  "filter constrainsOwner (appendIdIf field v) =
     (if field = ''owner'' then appendIdIf field v else [])"
  by (auto simp: appendIdIf_def split: option.splits)

lemma filter_owner_appendRangeIf: "filter constrainsOwner (appendRangeIf field v) = []"
  by (simp add: appendRangeIf_def split: option.splits)

text \<open>
  Claim C10. For every child-owner and every \<open>args\<close> passed to \<open>findAndCountAll\<close>, the owner
  filter applied is the actor's own id whatever owner \<open>args.filter\<close> supplies: two calls
  that differ only in the supplied owner filter hand the same arguments to the repository
  and build the same query, and, the actor's id being a non-empty string, the one
  constraint of the query on the owner is the actor's id.
\<close>

theorem child_owner_lists_own_bookings:
  "isChildOwner (currentUser e) \<longrightarrow>
     (\<exists>f. args_filter (BookingService_findAndCountAll_args e a) = Some f
         \<and> filter_owner f = Some (user_id (currentUser e)))
   \<and> BookingService_findAndCountAll_args e (a\<lparr>args_filter := Some (g\<lparr>filter_owner := x\<rparr>)\<rparr>) =
     BookingService_findAndCountAll_args e (a\<lparr>args_filter := Some (g\<lparr>filter_owner := y\<rparr>)\<rparr>)
   \<and> BookingService_findAndCountAll e (a\<lparr>args_filter := Some (g\<lparr>filter_owner := x\<rparr>)\<rparr>) =
     BookingService_findAndCountAll e (a\<lparr>args_filter := Some (g\<lparr>filter_owner := y\<rparr>)\<rparr>)
   \<and> (user_id (currentUser e) \<noteq> [] \<longrightarrow>
        filter constrainsOwner (BookingService_findAndCountAll e a) =
          [AppendId ''owner'' (user_id (currentUser e))])"
  by (simp add: BookingService_findAndCountAll_def BookingService_findAndCountAll_args_def
      spreadFilter_def repository_findAndCountAll_def filter_owner_appendIdIf
      filter_owner_appendRangeIf appendIdIf_def split: option.splits)

theorem child_owner_lists_own_bookings_witness:
  "BookingService_findAndCountAll strangerEnv (listArgs (Some ''u1'')) =
     BookingService_findAndCountAll strangerEnv (listArgs None)
   \<and> filter constrainsOwner (BookingService_findAndCountAll strangerEnv (listArgs (Some ''u1''))) =
     [AppendId ''owner'' ''u2'']"
proof -
  let ?g = "(spreadFilter None)\<lparr>filter_status := Some BOOKED\<rparr>"
  have shape: "listArgs v = (listArgs None)\<lparr>args_filter := Some (?g\<lparr>filter_owner := v\<rparr>)\<rparr>" for v
    by (simp add: listArgs_def)
  have actor: "isChildOwner (currentUser strangerEnv)" "user_id (currentUser strangerEnv) = ''u2''"
    by (simp_all add: example_defs)
  from child_owner_lists_own_bookings
         [where e = strangerEnv and a = "listArgs None" and g = ?g and x = "Some ''u1''" and y = None]
       actor
  have 1: "BookingService_findAndCountAll strangerEnv (listArgs (Some ''u1'')) =
       BookingService_findAndCountAll strangerEnv (listArgs None)"
    by (simp add: shape [symmetric])
  from child_owner_lists_own_bookings
         [where e = strangerEnv and a = "listArgs (Some ''u1'')" and g = ?g and x = None and y = None]
       actor
  have 2: "filter constrainsOwner (BookingService_findAndCountAll strangerEnv (listArgs (Some ''u1''))) =
       [AppendId ''owner'' ''u2'']"
    by simp
  from 1 2 show ?thesis by simp
qed

end
